theory Spec2Isabelle
  imports
    Complex_Main
    "HOL-Library.Char_ord"
    "HOL-Library.List_Lexorder"
    "HOL-Library.Product_Lexorder"
begin

section \<open>MusicMatch: the matching engine of \<^verbatim>\<open>logic.py\<close>\<close>

text \<open>
  The backend of \<^verbatim>\<open>logic.py\<close> (lines 39 to 133) is embedded: the \<^verbatim>\<open>User\<close>
  dataclass, \<^verbatim>\<open>normalize_artist\<close>, \<^verbatim>\<open>jaccard_similarity\<close>, \<^verbatim>\<open>overlap_count\<close>, the
  \<^verbatim>\<open>Matcher\<close> class with its persistence, and \<^verbatim>\<open>sample_users\<close>. The Tkinter front end
  below line 136 is not part of the model.

  Conventions of the embedding.
  \<^item> A \<^verbatim>\<open>str\<close> that enters the program (a name, an artist) is a \<open>string\<close>; a \<open>char\<close>
    stands for the code point of the same number, so the model covers the texts over
    the code points 0 to 255. Case folding leaves this range (the micro sign folds to
    code point 956), so a \<^verbatim>\<open>str\<close> that the program computes by case folding is the
    list of its code points, a \<open>codepoints\<close>. Both compare as in Python, code point by
    code point, a proper prefix being smaller.
  \<^item> A Python exception is a value \<open>Inl e\<close> of the result type \<open>error + 'a\<close>.
  \<^item> The \<^verbatim>\<open>float\<close> quotient of two set sizes is the exact rational; Python rounds it to
    the nearest double, which keeps 0 and 1 exact and keeps the order of the quotients.
  \<^item> The records follow the annotations of the dataclass: \<^verbatim>\<open>name: str\<close> and
    \<^verbatim>\<open>top_artists: List[str]\<close>.
\<close>

subsection \<open>Errors\<close>

datatype error =
    TypeError
  | AttributeError
  | OSError
  | JSONDecodeError

subsection \<open>The string methods the source calls\<close>

type_synonym codepoints = "int list"

text \<open>The code points of a text that entered the program.\<close>

abbreviation cps :: "string \<Rightarrow> codepoints" where
  "cps s \<equiv> map of_char s"

text \<open>
  \<^verbatim>\<open>str.isspace\<close> on one code point, which is also the white space of \<^verbatim>\<open>strip\<close> and
  \<^verbatim>\<open>split\<close>: 9 to 13, 28 to 32, 133, 160, 5760, 8192 to 8202, 8232, 8233, 8239, 8287
  and 12288.
\<close>

definition str_isspace :: "int \<Rightarrow> bool" where
  "str_isspace n =
     ((9 \<le> n \<and> n \<le> 13) \<or> (28 \<le> n \<and> n \<le> 32) \<or> n = 133 \<or> n = 160 \<or> n = 5760 \<or>
      (8192 \<le> n \<and> n \<le> 8202) \<or> n = 8232 \<or> n = 8233 \<or> n = 8239 \<or> n = 8287 \<or>
      n = 12288)"

text \<open>\<^verbatim>\<open>s.strip()\<close>: white space is removed at both ends, and only there.\<close>

definition str_strip :: "string \<Rightarrow> string" where
  "str_strip s =
     rev (dropWhile (\<lambda>c. str_isspace (of_char c))
       (rev (dropWhile (\<lambda>c. str_isspace (of_char c)) s)))"

text \<open>
  \<^verbatim>\<open>s.casefold()\<close>, code point by code point. Among the code points 0 to 255 the
  letters 65 to 90, 192 to 214 and 216 to 222 fold to the code point 32 above, the micro
  sign 181 folds to the Greek mu 956, the sharp s 223 folds to the two letters ss, and
  every other code point folds to itself.
\<close>

definition casefold_char :: "char \<Rightarrow> codepoints" where
  "casefold_char c =
     (let n = (of_char c :: int)
      in if (65 \<le> n \<and> n \<le> 90) \<or> (192 \<le> n \<and> n \<le> 214) \<or> (216 \<le> n \<and> n \<le> 222)
         then [n + 32]
         else if n = 181 then [956]
         else if n = 223 then [115, 115]
         else [n])"

definition str_casefold :: "string \<Rightarrow> codepoints" where
  "str_casefold s = concat (map casefold_char s)"

text \<open>
  \<^verbatim>\<open>s.split()\<close> without a separator: the maximal runs of code points that are not
  white space, in order. \<open>w\<close> is the run being read.
\<close>

fun split_run :: "codepoints \<Rightarrow> codepoints \<Rightarrow> codepoints list" where
  "split_run w [] = (if w = [] then [] else [w])"
| "split_run w (c # cs) =
     (if str_isspace c
      then (if w = [] then split_run [] cs else w # split_run [] cs)
      else split_run (w @ [c]) cs)"

definition str_split :: "codepoints \<Rightarrow> codepoints list" where
  "str_split s = split_run [] s"

text \<open>\<^verbatim>\<open>sep.join(parts)\<close>.\<close>

fun str_join :: "codepoints \<Rightarrow> codepoints list \<Rightarrow> codepoints" where
  "str_join sep [] = []"
| "str_join sep [p] = p"
| "str_join sep (p # q # ps) = p @ sep @ str_join sep (q # ps)"

subsection \<open>User and the normaliser (lines 39 to 50)\<close>

record user =
  name :: string
  top_artists :: "string list"

definition normalize_artist :: "string \<Rightarrow> codepoints" where
  "normalize_artist a = str_join (cps '' '') (str_split (str_casefold (str_strip a)))"

definition normalized_artists :: "user \<Rightarrow> codepoints list" where
  "normalized_artists u =
     map normalize_artist (filter (\<lambda>a. str_strip a \<noteq> []) (top_artists u))"

subsection \<open>Similarity (lines 53 to 63)\<close>

definition jaccard_similarity :: "'a list \<Rightarrow> 'a list \<Rightarrow> rat" where
  "jaccard_similarity a b =
     (let set_a = set a; set_b = set b
      in if set_a = {} \<and> set_b = {} then 0
         else of_nat (card (set_a \<inter> set_b)) / of_nat (card (set_a \<union> set_b)))"

definition overlap_count :: "'a list \<Rightarrow> 'a list \<Rightarrow> nat" where
  "overlap_count a b = card (set a \<inter> set b)"

subsection \<open>Matcher (lines 66 to 91)\<close>

record matcher =
  users :: "user list"

text \<open>
  \<^verbatim>\<open>Matcher(users)\<close>: \<^verbatim>\<open>self.users = users or []\<close>. \<open>None\<close> and the empty list are
  both falsy and give a new empty list; any other list is taken as it is.
\<close>

definition Matcher :: "user list option \<Rightarrow> matcher" where
  "Matcher us =
     (case us of
        None \<Rightarrow> \<lparr>users = []\<rparr>
      | Some l \<Rightarrow> (if l = [] then \<lparr>users = []\<rparr> else \<lparr>users = l\<rparr>))"

text \<open>
  The identity key that \<^verbatim>\<open>add_user\<close> and \<^verbatim>\<open>match\<close> compare:
  \<^verbatim>\<open>u.name.strip().casefold()\<close>.
\<close>

definition name_key :: "user \<Rightarrow> codepoints" where
  "name_key u = str_casefold (str_strip (name u))"

text \<open>
  The loop of \<^verbatim>\<open>add_user\<close> over \<^verbatim>\<open>enumerate(self.users)\<close>, from index \<open>i\<close> on: the
  index at which the loop assigns and returns, or \<open>None\<close> when it runs to its end.
\<close>

fun add_user_loop :: "user \<Rightarrow> nat \<Rightarrow> user list \<Rightarrow> nat option" where
  "add_user_loop r i [] = None"
| "add_user_loop r i (u # us) =
     (if name_key u = name_key r then Some i else add_user_loop r (Suc i) us)"

definition add_user :: "user \<Rightarrow> matcher \<Rightarrow> matcher" where
  "add_user r m =
     (case add_user_loop r 0 (users m) of
        Some i \<Rightarrow> m\<lparr>users := (users m)[i := r]\<rparr>
      | None \<Rightarrow> m\<lparr>users := users m @ [r]\<rparr>)"

text \<open>An element of the result of \<^verbatim>\<open>match\<close>: the user, the score, the shared artists.\<close>

type_synonym entry = "user \<times> rat \<times> codepoints list"

text \<open>
  The variables of one call of \<^verbatim>\<open>match\<close>: the object \<^verbatim>\<open>self\<close> and the locals
  \<^verbatim>\<open>q_art\<close> and \<^verbatim>\<open>scored\<close>.
\<close>

record match_frame =
  self :: matcher
  q_art :: "codepoints list"
  scored :: "entry list"

text \<open>The body of the loop \<^verbatim>\<open>for u in self.users\<close> (lines 82 to 87).\<close>

definition match_body :: "user \<Rightarrow> match_frame \<Rightarrow> user \<Rightarrow> match_frame" where
  "match_body query fr u =
     (if name_key u = name_key query then fr
      else
        let u_art = normalized_artists u;
            score = jaccard_similarity (q_art fr) u_art;
            shared = sorted_list_of_set (set (q_art fr) \<inter> set u_art)
        in fr\<lparr>scored := scored fr @ [(u, score, shared)]\<rparr>)"

text \<open>The key of the sort (lines 89 and 90).\<close>

definition sort_key_of :: "entry \<Rightarrow> rat \<times> nat \<times> codepoints" where
  "sort_key_of x = (fst (snd x), length (snd (snd x)), str_casefold (name (fst x)))"

text \<open>
  \<^verbatim>\<open>xs.sort(key=k, reverse=True)\<close>: Python reverses the list, sorts it stably in
  ascending order of the key and reverses it again, so elements with equal keys keep
  their order.
\<close>

definition sort_reverse :: "('a \<Rightarrow> 'k::linorder) \<Rightarrow> 'a list \<Rightarrow> 'a list" where
  "sort_reverse k xs = rev (sort_key k (rev xs))"

text \<open>
  \<^verbatim>\<open>xs[:k]\<close>: a stop that is negative counts from the end and is clamped at 0.
\<close>

definition slice_to :: "'a list \<Rightarrow> int \<Rightarrow> 'a list" where
  "slice_to xs k =
     (if 0 \<le> k then take (nat k) xs
      else take (length xs - nat (- k)) xs)"

text \<open>
  The frame before the \<^verbatim>\<open>return\<close> of \<^verbatim>\<open>match\<close>: \<^verbatim>\<open>q_art\<close> is computed, the loop has
  run over \<^verbatim>\<open>self.users\<close>, and \<^verbatim>\<open>scored\<close> is sorted in place.
\<close>

definition match_run :: "matcher \<Rightarrow> user \<Rightarrow> match_frame" where
  "match_run m query =
     (let fr0 = \<lparr>self = m, q_art = normalized_artists query, scored = []\<rparr>;
          fr1 = foldl (match_body query) fr0 (users (self fr0))
      in fr1\<lparr>scored := sort_reverse sort_key_of (scored fr1)\<rparr>)"

text \<open>
  The call \<^verbatim>\<open>m.match(query, top_k)\<close> as a state transformer: the value returned and
  the object after the call.
\<close>

definition match_call :: "user \<Rightarrow> int \<Rightarrow> matcher \<Rightarrow> entry list \<times> matcher" where
  "match_call query top_k m =
     (let fr = match_run m query in (slice_to (scored fr) top_k, self fr))"

definition match :: "matcher \<Rightarrow> user \<Rightarrow> int \<Rightarrow> entry list" where
  "match m query top_k = fst (match_call query top_k m)"

subsection \<open>Seed data (lines 112 to 133)\<close>

text \<open>
  A list display evaluates its elements from left to right; the first element that
  raises ends the evaluation with that exception.
\<close>

fun list_display :: "(error + 'a) list \<Rightarrow> error + 'a list" where
  "list_display [] = Inr []"
| "list_display (x # xs) =
     (case x of
        Inl e \<Rightarrow> Inl e
      | Inr v \<Rightarrow> (case list_display xs of Inl e \<Rightarrow> Inl e | Inr vs \<Rightarrow> Inr (v # vs)))"

text \<open>
  The unary operator \<^verbatim>\<open>+\<close> applied to a tuple: \<^verbatim>\<open>tuple\<close> has no \<^verbatim>\<open>__pos__\<close>, so
  Python raises \<^verbatim>\<open>TypeError: bad operand type for unary +: 'tuple'\<close>.
\<close>

definition unary_plus_tuple :: "string \<times> string list \<Rightarrow> error + string \<times> string list" where
  "unary_plus_tuple t = Inl TypeError"

text \<open>
  The display bound to \<^verbatim>\<open>seed\<close>. Line 123 ends in \<^verbatim>\<open>), +\<close>: inside the brackets the
  line break does not end the expression, so the sixth element is the unary \<^verbatim>\<open>+\<close> of
  the tuple that starts on line 124.
\<close>

definition sample_users :: "error + user list" where
  "sample_users =
     (case list_display
        [Inr (''Aarav'', [''Taylor Swift'', ''Weeknd'',
           ''Imagine Dragons'', ''AURORA'', ''Coldplay'']),
         Inr (''Zoya'', [''BTS'', ''Blackpink'', ''IU'', ''NewJeans'', ''Weeknd'']),
         Inr (''Kabir'', [''Arijit Singh'', ''Pritam'',
           ''Shreya Ghoshal'', ''A R Rahman'', ''Jubin Nautiyal'']),
         Inr (''Mia'', [''Billie Eilish'', ''Lana Del Rey'',
           ''AURORA'', ''Grimes'', ''FKA twigs'']),
         Inr (''Rishabh'', [''Linkin Park'', ''Imagine Dragons'',
           ''Fall Out Boy'', ''Green Day'', ''My Chemical Romance'']),
         unary_plus_tuple
           (''Anaya'', [''AP Dhillon'', ''Shubh'',
           ''Karan Aujla'', ''Badshah'', ''Diljit Dosanjh'']),
         Inr (''Noah'', [''Drake'', ''Kendrick Lamar'',
           ''J. Cole'', ''Travis Scott'', ''SZA'']),
         Inr (''Ishi'', [''A R Rahman'', ''Shreya Ghoshal'',
           ''KK'', ''Arijit Singh'', ''Sonu Nigam'']),
         Inr (''Yuto'', [''YOASOBI'', ''Kenshi Yonezu'', ''Aimer'', ''King Gnu'', ''Eve'']),
         Inr (''Sana'', [''Twice'', ''Blackpink'', ''NewJeans'', ''LE SSERAFIM'', ''IVE''])]
      of
        Inl e \<Rightarrow> Inl e
      | Inr seed \<Rightarrow> Inr (map (\<lambda>(n, a). \<lparr>name = n, top_artists = a\<rparr>) seed))"

subsection \<open>Persistence (lines 94 to 109)\<close>

text \<open>
  The values of the \<^verbatim>\<open>json\<close> module: \<^verbatim>\<open>None\<close>, \<^verbatim>\<open>bool\<close>, \<^verbatim>\<open>int\<close>, \<^verbatim>\<open>float\<close>,
  \<^verbatim>\<open>str\<close>, \<^verbatim>\<open>list\<close> and \<^verbatim>\<open>dict\<close>; a \<^verbatim>\<open>dict\<close> is the list of its items, in
  insertion order.
\<close>

datatype json =
    JNull
  | JBool bool
  | JInt int
  | JFloat rat
  | JStr string
  | JArr "json list"
  | JObj "(string \<times> json) list"

definition to_dict :: "matcher \<Rightarrow> json" where
  "to_dict m =
     JObj [(''users'',
       JArr (map (\<lambda>u. JObj [(''name'', JStr (name u)),
                              (''top_artists'', JArr (map JStr (top_artists u)))])
                 (users m)))]"

text \<open>\<^verbatim>\<open>x.get(key, default)\<close>: only a \<^verbatim>\<open>dict\<close> has the method.\<close>

fun dict_get :: "json \<Rightarrow> string \<Rightarrow> json \<Rightarrow> error + json" where
  "dict_get (JObj kvs) key dflt =
     Inr (case map_of kvs key of None \<Rightarrow> dflt | Some v \<Rightarrow> v)"
| "dict_get x key dflt = Inl AttributeError"

text \<open>
  \<^verbatim>\<open>for u in x\<close>: a list gives its elements, a \<^verbatim>\<open>dict\<close> its keys, a \<^verbatim>\<open>str\<close> its
  characters; the other values are not iterable.
\<close>

fun iterate :: "json \<Rightarrow> error + json list" where
  "iterate (JArr xs) = Inr xs"
| "iterate (JObj kvs) = Inr (map (\<lambda>kv. JStr (fst kv)) kvs)"
| "iterate (JStr s) = Inr (map (\<lambda>c. JStr [c]) s)"
| "iterate x = Inl TypeError"

text \<open>
  The comprehension of lines 103 and 104, up to the two arguments of each \<^verbatim>\<open>User(...)\<close>:
  \<^verbatim>\<open>u.get("name", "")\<close> and \<^verbatim>\<open>u.get("top_artists", [])\<close>.
\<close>

fun user_fields :: "json list \<Rightarrow> error + (json \<times> json) list" where
  "user_fields [] = Inr []"
| "user_fields (u # us) =
     (case dict_get u ''name'' (JStr []) of
        Inl e \<Rightarrow> Inl e
      | Inr n \<Rightarrow>
          (case dict_get u ''top_artists'' (JArr []) of
             Inl e \<Rightarrow> Inl e
           | Inr a \<Rightarrow>
               (case user_fields us of
                  Inl e \<Rightarrow> Inl e
                | Inr fs \<Rightarrow> Inr ((n, a) # fs))))"

text \<open>
  \<^verbatim>\<open>User(n, a)\<close> checks nothing. When \<open>n\<close> is a \<^verbatim>\<open>str\<close> and \<open>a\<close> a list of \<^verbatim>\<open>str\<close> the
  object is a \<open>user\<close>; otherwise Python builds an object that breaks the annotations
  of the dataclass, which \<open>user\<close> cannot hold.
\<close>

fun the_str :: "json \<Rightarrow> string option" where
  "the_str (JStr s) = Some s"
| "the_str x = None"

fun User :: "json \<Rightarrow> json \<Rightarrow> user option" where
  "User (JStr n) (JArr xs) =
     (if list_all (\<lambda>x. the_str x \<noteq> None) xs
      then Some \<lparr>name = n, top_artists = map (\<lambda>x. the (the_str x)) xs\<rparr>
      else None)"
| "User n a = None"

fun build_users :: "(json \<times> json) list \<Rightarrow> user list option" where
  "build_users [] = Some []"
| "build_users ((n, a) # fs) =
     (case User n a of
        None \<Rightarrow> None
      | Some u \<Rightarrow> (case build_users fs of None \<Rightarrow> None | Some us \<Rightarrow> Some (u # us)))"

text \<open>
  The \<^verbatim>\<open>Matcher\<close> that \<^verbatim>\<open>from_file\<close> returns: either every record follows the
  annotations, and it is a \<open>matcher\<close>, or some record does not, and the value is kept as
  the list of the two arguments of each \<^verbatim>\<open>User(...)\<close>.
\<close>

datatype loaded = Well_typed matcher | Ill_typed "(json \<times> json) list"

text \<open>
  The file system: what a path names, and the paths at which \<^verbatim>\<open>open(path, "w")\<close> is
  refused. A path that names nothing does not exist for \<^verbatim>\<open>os.path.exists\<close>. The
  program hands the content of a file to the \<^verbatim>\<open>json\<close> module and never reads it
  itself, so the type \<open>'c\<close> of the content is left open.
\<close>

datatype 'c node = File 'c | Directory

record 'c filesystem =
  nodes :: "string \<rightharpoonup> 'c node"
  write_denied :: "string \<Rightarrow> bool"

text \<open>
  \<^verbatim>\<open>json.load\<close> and \<^verbatim>\<open>json.dump\<close> belong to the standard library, not to this
  program: the parser enters \<open>from_file\<close> as the parameter \<open>loads\<close>, from the content of
  a file to a value or an exception, and the printer enters \<open>save\<close> as \<open>dumps\<close>.
\<close>

definition from_file ::
  "('c \<Rightarrow> error + json) \<Rightarrow> 'c filesystem \<Rightarrow> string \<Rightarrow> error + loaded" where
  "from_file loads fs path =
     (case nodes fs path of
        None \<Rightarrow>
          (case sample_users of
             Inl e \<Rightarrow> Inl e
           | Inr us \<Rightarrow> Inr (Well_typed (Matcher (Some us))))
      | Some Directory \<Rightarrow> Inl OSError
      | Some (File content) \<Rightarrow>
          (case loads content of
             Inl e \<Rightarrow> Inl e
           | Inr data \<Rightarrow>
               (case dict_get data ''users'' (JArr []) of
                  Inl e \<Rightarrow> Inl e
                | Inr v \<Rightarrow>
                    (case iterate v of
                       Inl e \<Rightarrow> Inl e
                     | Inr entries \<Rightarrow>
                         (case user_fields entries of
                            Inl e \<Rightarrow> Inl e
                          | Inr args \<Rightarrow>
                              (case build_users args of
                                 None \<Rightarrow> Inr (Ill_typed args)
                               | Some us \<Rightarrow> Inr (Well_typed (Matcher (Some us)))))))))"

definition save ::
  "(json \<Rightarrow> 'c) \<Rightarrow> matcher \<Rightarrow> string \<Rightarrow> 'c filesystem \<Rightarrow> error + 'c filesystem" where
  "save dumps m path fs =
     (if nodes fs path = Some Directory \<or> write_denied fs path then Inl OSError
      else Inr (fs\<lparr>nodes := (nodes fs)(path \<mapsto> File (dumps (to_dict m)))\<rparr>))"

section \<open>Properties\<close>

subsection \<open>Similarity\<close>

lemma jaccard_similarity_empty:
  "jaccard_similarity [] [] = 0"
  by (simp add: jaccard_similarity_def)

lemma card_inter_le_card_union:
  "card (set a \<inter> set b) \<le> card (set a \<union> set b)"
  by (rule card_mono) auto

text \<open>
  C7. The score is the Jaccard index of the two lists seen as sets: 0 when both sets
  are empty, and otherwise the size of the intersection divided by the size of the
  union, which is not zero. The score lies between 0 and 1.
\<close>

theorem jaccard_similarity_index:
  "(set a = {} \<and> set b = {} \<longrightarrow> jaccard_similarity a b = 0) \<and>
   (\<not> (set a = {} \<and> set b = {}) \<longrightarrow>
      0 < card (set a \<union> set b) \<and>
      jaccard_similarity a b =
        of_nat (card (set a \<inter> set b)) / of_nat (card (set a \<union> set b))) \<and>
   0 \<le> jaccard_similarity a b \<and> jaccard_similarity a b \<le> 1"
proof -
  have le: "card (set a \<inter> set b) \<le> card (set a \<union> set b)"
    by (rule card_inter_le_card_union)
  have pos: "0 < card (set a \<union> set b)" if "\<not> (set a = {} \<and> set b = {})"
    using that by (simp add: card_gt_0_iff)
  have upper: "jaccard_similarity a b \<le> 1"
  proof (cases "set a = {} \<and> set b = {}")
    case True
    then show ?thesis by (simp add: jaccard_similarity_def)
  next
    case False
    have "(of_nat (card (set a \<inter> set b)) :: rat) \<le> of_nat (card (set a \<union> set b))"
      using le by (simp only: of_nat_le_iff)
    moreover have "(0::rat) < of_nat (card (set a \<union> set b))"
      using pos [OF False] by (simp only: of_nat_0_less_iff)
    ultimately have
      "(of_nat (card (set a \<inter> set b)) :: rat) / of_nat (card (set a \<union> set b)) \<le> 1"
      by (simp add: divide_le_eq_1)
    with False show ?thesis by (simp add: jaccard_similarity_def Let_def)
  qed
  have lower: "0 \<le> jaccard_similarity a b"
    by (simp add: jaccard_similarity_def Let_def)
  show ?thesis
    using pos upper lower by (simp add: jaccard_similarity_def Let_def)
qed

theorem jaccard_similarity_index_witness:
  "jaccard_similarity [''a'', ''b'', ''a''] [''b'', ''c''] = 1 / 3 \<and>
   jaccard_similarity ([] :: string list) [] = 0 \<and>
   0 \<le> jaccard_similarity [''a'', ''b'', ''a''] [''b'', ''c''] \<and>
   jaccard_similarity [''a'', ''b'', ''a''] [''b'', ''c''] \<le> 1"
proof -
  have ne: "\<not> (set [''a'', ''b'', ''a''] = {} \<and> set [''b'', ''c''] = {})"
    by simp
  have i: "card (set [''a'', ''b'', ''a''] \<inter> set [''b'', ''c'']) = 1"
    by code_simp
  have u: "card (set [''a'', ''b'', ''a''] \<union> set [''b'', ''c'']) = 3"
    by code_simp
  have e: "set ([] :: string list) = {} \<and> set ([] :: string list) = {}"
    by simp
  show ?thesis
    using jaccard_similarity_index [of "[''a'', ''b'', ''a'']" "[''b'', ''c'']"]
      jaccard_similarity_index [of "[] :: string list" "[]"] ne e
    by (simp only: i u) simp
qed

subsection \<open>The loop and the sort of \<^verbatim>\<open>match\<close>\<close>

lemma match_body_self:
  "self (match_body query fr u) = self fr"
  by (simp add: match_body_def Let_def)

lemma match_body_q_art:
  "q_art (match_body query fr u) = q_art fr"
  by (simp add: match_body_def Let_def)

lemma foldl_match_body_self:
  "self (foldl (match_body query) fr us) = self fr"
  by (induction us arbitrary: fr) (simp_all add: match_body_self)

lemma foldl_match_body_q_art:
  "q_art (foldl (match_body query) fr us) = q_art fr"
  by (induction us arbitrary: fr) (simp_all add: match_body_q_art)

lemma foldl_match_body_scored:
  "scored (foldl (match_body query) fr us) =
     scored fr @
     map (\<lambda>u. (u, jaccard_similarity (q_art fr) (normalized_artists u),
                sorted_list_of_set (set (q_art fr) \<inter> set (normalized_artists u))))
         (filter (\<lambda>u. name_key u \<noteq> name_key query) us)"
proof (induction us arbitrary: fr)
  case Nil
  show ?case by simp
next
  case (Cons u us)
  show ?case
  proof (cases "name_key u = name_key query")
    case True
    then have "match_body query fr u = fr"
      by (simp add: match_body_def)
    with True Cons.IH [of fr] show ?thesis by simp
  next
    case False
    then have step: "scored (match_body query fr u) =
        scored fr @ [(u, jaccard_similarity (q_art fr) (normalized_artists u),
          sorted_list_of_set (set (q_art fr) \<inter> set (normalized_artists u)))]"
      by (simp add: match_body_def Let_def)
    show ?thesis
      using False Cons.IH [of "match_body query fr u"]
      by (simp add: step match_body_q_art)
  qed
qed

lemma self_match_run:
  "self (match_run m query) = m"
  by (simp add: match_run_def Let_def foldl_match_body_self)

lemma set_sort_reverse:
  "set (sort_reverse k xs) = set xs"
  by (simp add: sort_reverse_def)

lemma length_sort_reverse:
  "length (sort_reverse k xs) = length xs"
  by (simp add: sort_reverse_def)

lemma sorted_sort_reverse:
  "sorted (rev (map k (sort_reverse k xs)))"
  by (simp add: sort_reverse_def rev_map [symmetric])

lemma set_slice_to:
  "set (slice_to xs k) \<subseteq> set xs"
  by (auto simp add: slice_to_def dest: in_set_takeD)

lemma scored_match_run:
  "scored (match_run m query) =
     sort_reverse sort_key_of
       (map (\<lambda>u. (u, jaccard_similarity (normalized_artists query) (normalized_artists u),
                  sorted_list_of_set
                    (set (normalized_artists query) \<inter> set (normalized_artists u))))
            (filter (\<lambda>u. name_key u \<noteq> name_key query) (users m)))"
  by (simp add: match_run_def Let_def foldl_match_body_scored)

lemma scored_match_run_user:
  assumes "e \<in> set (scored (match_run m query))"
  shows "fst e \<in> set (users m) \<and> name_key (fst e) \<noteq> name_key query"
  using assms by (auto simp add: scored_match_run set_sort_reverse)

lemma match_eq_slice:
  "match m query top_k = slice_to (scored (match_run m query)) top_k"
  by (simp add: match_def match_call_def Let_def)

text \<open>
  The whole sorted list is in descending order of the key, the name included: read
  from its end, the keys ascend.
\<close>

lemma match_run_sorted_descending:
  "sorted (rev (map sort_key_of (scored (match_run m query))))"
  by (simp add: scored_match_run sorted_sort_reverse)

subsection \<open>The ranking\<close>

text \<open>
  C2. The store holds Amy and then Bob, neither with an artist, and the query is Q,
  with no artist either. Both candidates have the score 0 and share nothing, so the
  name decides: \<^verbatim>\<open>match\<close> returns Bob before Amy, the case-folded names descending.
\<close>

theorem match_ties_name_descending:
  "map (\<lambda>e. name (fst e))
     (match \<lparr>users = [\<lparr>name = ''Amy'', top_artists = []\<rparr>,
                       \<lparr>name = ''Bob'', top_artists = []\<rparr>]\<rparr>
            \<lparr>name = ''Q'', top_artists = []\<rparr> 5) = [''Bob'', ''Amy''] \<and>
   map (\<lambda>e. (fst (snd e), length (snd (snd e))))
     (match \<lparr>users = [\<lparr>name = ''Amy'', top_artists = []\<rparr>,
                       \<lparr>name = ''Bob'', top_artists = []\<rparr>]\<rparr>
            \<lparr>name = ''Q'', top_artists = []\<rparr> 5) = [(0, 0), (0, 0)] \<and>
   str_casefold ''Amy'' < str_casefold ''Bob''"
  by code_simp

subsection \<open>Self-exclusion\<close>

text \<open>
  C5. No element of the result of \<^verbatim>\<open>match\<close> is a record whose name, stripped and
  case-folded, equals the stripped and case-folded name of the query.
\<close>

theorem match_excludes_query_identity:
  "\<forall>e \<in> set (match m query top_k). name_key (fst e) \<noteq> name_key query"
proof
  fix e
  assume "e \<in> set (match m query top_k)"
  then have "e \<in> set (scored (match_run m query))"
    using set_slice_to [of "scored (match_run m query)" top_k]
    by (auto simp add: match_eq_slice)
  then show "name_key (fst e) \<noteq> name_key query"
    by (simp add: scored_match_run_user)
qed

theorem match_excludes_query_identity_witness:
  "match \<lparr>users = [\<lparr>name = ''zoe'', top_artists = [''IU'']\<rparr>,
                    \<lparr>name = ''  ZOE '', top_artists = [''BTS'']\<rparr>,
                    \<lparr>name = [CHR ''Z'', CHR ''o'', CHR 0xE9], top_artists = [''IU'']\<rparr>,
                    \<lparr>name = ''Bob'', top_artists = [''IU'']\<rparr>,
                    \<lparr>name = [CHR ''Z'', CHR ''O'', CHR 0xC9], top_artists = []\<rparr>]\<rparr>
         \<lparr>name = [CHR ''Z'', CHR ''o'', CHR 0xC9], top_artists = [''IU'']\<rparr> 5
     = [(\<lparr>name = ''zoe'', top_artists = [''IU'']\<rparr>, 1, [cps ''iu'']),
        (\<lparr>name = ''Bob'', top_artists = [''IU'']\<rparr>, 1, [cps ''iu'']),
        (\<lparr>name = ''  ZOE '', top_artists = [''BTS'']\<rparr>, 0, [])] \<and>
   name_key \<lparr>name = ''zoe'', top_artists = [''IU'']\<rparr>
     \<noteq> name_key \<lparr>name = [CHR ''Z'', CHR ''o'', CHR 0xC9], top_artists = [''IU'']\<rparr> \<and>
   name_key \<lparr>name = [CHR ''Z'', CHR ''o'', CHR 0xE9], top_artists = [''IU'']\<rparr>
     = name_key \<lparr>name = [CHR ''Z'', CHR ''o'', CHR 0xC9], top_artists = [''IU'']\<rparr> \<and>
   name_key \<lparr>name = [CHR ''Z'', CHR ''O'', CHR 0xC9], top_artists = []\<rparr>
     = name_key \<lparr>name = [CHR ''Z'', CHR ''o'', CHR 0xC9], top_artists = [''IU'']\<rparr>"
proof -
  let ?m = "\<lparr>users = [\<lparr>name = ''zoe'', top_artists = [''IU'']\<rparr>,
                    \<lparr>name = ''  ZOE '', top_artists = [''BTS'']\<rparr>,
                    \<lparr>name = [CHR ''Z'', CHR ''o'', CHR 0xE9], top_artists = [''IU'']\<rparr>,
                    \<lparr>name = ''Bob'', top_artists = [''IU'']\<rparr>,
                    \<lparr>name = [CHR ''Z'', CHR ''O'', CHR 0xC9], top_artists = []\<rparr>]\<rparr>"
  let ?q = "\<lparr>name = [CHR ''Z'', CHR ''o'', CHR 0xC9], top_artists = [''IU'']\<rparr>"
  have run: "match ?m ?q 5
     = [(\<lparr>name = ''zoe'', top_artists = [''IU'']\<rparr>, 1, [cps ''iu'']),
        (\<lparr>name = ''Bob'', top_artists = [''IU'']\<rparr>, 1, [cps ''iu'']),
        (\<lparr>name = ''  ZOE '', top_artists = [''BTS'']\<rparr>, 0, [])]"
    by code_simp
  have same1: "name_key \<lparr>name = [CHR ''Z'', CHR ''o'', CHR 0xE9], top_artists = [''IU'']\<rparr>
      = name_key ?q"
    by code_simp
  have same2: "name_key \<lparr>name = [CHR ''Z'', CHR ''O'', CHR 0xC9], top_artists = []\<rparr>
      = name_key ?q"
    by code_simp
  have "(\<lparr>name = ''zoe'', top_artists = [''IU'']\<rparr>, 1, [cps ''iu'']) \<in> set (match ?m ?q 5)"
    by (simp only: run) simp
  with match_excludes_query_identity [of ?m ?q 5]
  have "name_key (fst (\<lparr>name = ''zoe'', top_artists = [''IU'']\<rparr>, 1 :: rat, [cps ''iu'']))
      \<noteq> name_key ?q"
    by blast
  then have other: "name_key \<lparr>name = ''zoe'', top_artists = [''IU'']\<rparr> \<noteq> name_key ?q"
    by simp
  from run other same1 same2 show ?thesis
    by blast
qed

subsection \<open>Truncation\<close>

text \<open>
  C6, as the claim states it, fails: with Amy and Bob in the store and \<^verbatim>\<open>top_k = -1\<close>,
  which is at most 0, \<^verbatim>\<open>match\<close> returns Bob.
\<close>

theorem match_negative_top_k_not_empty:
  "(- 1 :: int) \<le> 0 \<and>
   match \<lparr>users = [\<lparr>name = ''Amy'', top_artists = []\<rparr>,
                    \<lparr>name = ''Bob'', top_artists = []\<rparr>]\<rparr>
         \<lparr>name = ''Q'', top_artists = []\<rparr> (- 1)
     = [(\<lparr>name = ''Bob'', top_artists = []\<rparr>, 0, [])] \<and>
   match \<lparr>users = [\<lparr>name = ''Amy'', top_artists = []\<rparr>,
                    \<lparr>name = ''Bob'', top_artists = []\<rparr>]\<rparr>
         \<lparr>name = ''Q'', top_artists = []\<rparr> (- 1) \<noteq> []"
  by code_simp

text \<open>
  C6, amended. \<^verbatim>\<open>match\<close> returns the first \<open>top_k\<close> elements of the sorted list when
  \<open>top_k\<close> is 0 or more: all of them when there are at most \<open>top_k\<close>, none when
  \<open>top_k\<close> is 0. When \<open>top_k\<close> is negative it returns the sorted list without its last
  \<open>- top_k\<close> elements.
\<close>

theorem match_truncates:
  "(0 \<le> top_k \<longrightarrow>
      match m query top_k = take (nat top_k) (scored (match_run m query))) \<and>
   (0 \<le> top_k \<and> int (length (scored (match_run m query))) \<le> top_k \<longrightarrow>
      match m query top_k = scored (match_run m query)) \<and>
   match m query 0 = [] \<and>
   (top_k < 0 \<longrightarrow>
      match m query top_k =
        take (length (scored (match_run m query)) - nat (- top_k))
             (scored (match_run m query)))"
  by (auto simp add: match_eq_slice slice_to_def)

theorem match_truncates_witness:
  "match \<lparr>users = [\<lparr>name = ''Amy'', top_artists = []\<rparr>,
                    \<lparr>name = ''Bob'', top_artists = []\<rparr>]\<rparr>
         \<lparr>name = ''Q'', top_artists = []\<rparr> 1
     = [(\<lparr>name = ''Bob'', top_artists = []\<rparr>, 0, [])] \<and>
   match \<lparr>users = [\<lparr>name = ''Amy'', top_artists = []\<rparr>,
                    \<lparr>name = ''Bob'', top_artists = []\<rparr>]\<rparr>
         \<lparr>name = ''Q'', top_artists = []\<rparr> 5
     = [(\<lparr>name = ''Bob'', top_artists = []\<rparr>, 0, []),
        (\<lparr>name = ''Amy'', top_artists = []\<rparr>, 0, [])] \<and>
   match \<lparr>users = [\<lparr>name = ''Amy'', top_artists = []\<rparr>,
                    \<lparr>name = ''Bob'', top_artists = []\<rparr>]\<rparr>
         \<lparr>name = ''Q'', top_artists = []\<rparr> (- 1)
     = [(\<lparr>name = ''Bob'', top_artists = []\<rparr>, 0, [])]"
proof -
  let ?m = "\<lparr>users = [\<lparr>name = ''Amy'', top_artists = []\<rparr>,
                       \<lparr>name = ''Bob'', top_artists = []\<rparr>]\<rparr>"
  let ?q = "\<lparr>name = ''Q'', top_artists = []\<rparr>"
  have run: "scored (match_run ?m ?q)
     = [(\<lparr>name = ''Bob'', top_artists = []\<rparr>, 0, []),
        (\<lparr>name = ''Amy'', top_artists = []\<rparr>, 0, [])]"
    by code_simp
  have a: "(0::int) \<le> 1" and b: "(0::int) \<le> 5 \<and> int 2 \<le> 5" and c: "(- 1 :: int) < 0"
    by simp_all
  show ?thesis
    using match_truncates [of 1 ?m ?q] match_truncates [of 5 ?m ?q]
      match_truncates [of "- 1" ?m ?q] a b c
    by (simp add: run)
qed

subsection \<open>The store is not touched by \<^verbatim>\<open>match\<close>\<close>

text \<open>
  C9. The object after a call of \<^verbatim>\<open>match\<close> is the object before it: the loop and the
  sort write to the local list \<^verbatim>\<open>scored\<close> only, so no record is added, removed or
  changed, and the query is not inserted.
\<close>

theorem match_call_keeps_store:
  "snd (match_call query top_k m) = m"
  by (simp add: match_call_def Let_def self_match_run)

subsection \<open>The loop of \<^verbatim>\<open>add_user\<close>\<close>

lemma add_user_loop_None:
  "add_user_loop r i us = None \<longleftrightarrow> (\<forall>u \<in> set us. name_key u \<noteq> name_key r)"
  by (induction us arbitrary: i) auto

lemma add_user_loop_Some:
  assumes "add_user_loop r i us = Some j"
  shows "i \<le> j \<and> j - i < length us \<and> name_key (us ! (j - i)) = name_key r \<and>
         (\<forall>k < j - i. name_key (us ! k) \<noteq> name_key r)"
  using assms
proof (induction us arbitrary: i)
  case Nil
  then show ?case by simp
next
  case (Cons u us)
  show ?case
  proof (cases "name_key u = name_key r")
    case True
    with Cons.prems show ?thesis by simp
  next
    case False
    with Cons.prems have rest: "add_user_loop r (Suc i) us = Some j"
      by simp
    from Cons.IH [OF rest]
    have le: "Suc i \<le> j"
      and len: "j - Suc i < length us"
      and hit: "name_key (us ! (j - Suc i)) = name_key r"
      and miss: "\<forall>k < j - Suc i. name_key (us ! k) \<noteq> name_key r"
      by simp_all
    from le have shift: "j - i = Suc (j - Suc i)"
      by simp
    have miss': "\<forall>k < j - i. name_key ((u # us) ! k) \<noteq> name_key r"
    proof (intro allI impI)
      fix k
      assume "k < j - i"
      then show "name_key ((u # us) ! k) \<noteq> name_key r"
        using False miss shift by (cases k) simp_all
    qed
    show ?thesis
      using le len hit miss' by (simp add: shift)
  qed
qed

lemma add_user_loop_0:
  assumes "add_user_loop r 0 us = Some i"
  shows "i < length us \<and> name_key (us ! i) = name_key r \<and>
         (\<forall>k < i. name_key (us ! k) \<noteq> name_key r)"
  using add_user_loop_Some [OF assms] by simp

lemma add_user_replaces:
  assumes "add_user_loop r 0 (users m) = Some i"
  shows "users (add_user r m) = (users m)[i := r]"
  using assms by (simp add: add_user_def)

lemma add_user_appends:
  assumes "add_user_loop r 0 (users m) = None"
  shows "users (add_user r m) = users m @ [r]"
  using assms by (simp add: add_user_def)

lemma add_user_keys:
  "map name_key (users (add_user r m)) =
     (if \<exists>u \<in> set (users m). name_key u = name_key r
      then map name_key (users m)
      else map name_key (users m) @ [name_key r])"
proof (cases "add_user_loop r 0 (users m)")
  case None
  then have "\<forall>u \<in> set (users m). name_key u \<noteq> name_key r"
    by (simp add: add_user_loop_None)
  with None show ?thesis
    by (auto simp add: add_user_appends)
next
  case (Some i)
  from add_user_loop_0 [OF Some]
  have len: "i < length (users m)" and hit: "name_key (users m ! i) = name_key r"
    by simp_all
  have "map name_key ((users m)[i := r]) = (map name_key (users m))[i := name_key r]"
    by (rule map_update)
  also have "\<dots> = map name_key (users m)"
    using len hit by (simp add: list_update_same_conv)
  finally have same: "map name_key (users (add_user r m)) = map name_key (users m)"
    by (simp add: add_user_replaces [OF Some])
  have "\<exists>u \<in> set (users m). name_key u = name_key r"
    using len hit nth_mem by blast
  with same show ?thesis by simp
qed

lemma add_user_distinct:
  assumes "distinct (map name_key (users m))"
  shows "distinct (map name_key (users (add_user r m)))"
  using assms by (auto simp add: add_user_keys)

lemma foldl_add_user_distinct:
  assumes "distinct (map name_key (users m))"
  shows "distinct (map name_key (users (foldl (\<lambda>m r. add_user r m) m rs)))"
  using assms by (induction rs arbitrary: m) (simp_all add: add_user_distinct)

subsection \<open>What \<^verbatim>\<open>from_file\<close> reads from a saved store\<close>

lemma user_fields_to_dict:
  "user_fields
     (map (\<lambda>u. JObj [(''name'', JStr (name u)),
                      (''top_artists'', JArr (map JStr (top_artists u)))]) us)
     = Inr (map (\<lambda>u. (JStr (name u), JArr (map JStr (top_artists u)))) us)"
  by (induction us) simp_all

lemma User_of_fields:
  fixes u :: user
  shows "User (JStr (name u)) (JArr (map JStr (top_artists u))) = Some u"
proof -
  have all: "list_all (\<lambda>x. the_str x \<noteq> None) (map JStr (top_artists u))"
    by (simp add: list_all_iff)
  have texts: "map (\<lambda>x. the (the_str x)) (map JStr (top_artists u)) = top_artists u"
    by (simp add: comp_def)
  have "User (JStr (name u)) (JArr (map JStr (top_artists u)))
      = Some \<lparr>name = name u, top_artists = top_artists u\<rparr>"
    by (simp only: User.simps all texts if_True)
  then show ?thesis by simp
qed

lemma build_users_to_dict:
  fixes us :: "user list"
  shows "build_users (map (\<lambda>u. (JStr (name u), JArr (map JStr (top_artists u)))) us)
     = Some us"
proof (induction us)
  case Nil
  show ?case by simp
next
  case (Cons u us)
  have "build_users ((JStr (name u), JArr (map JStr (top_artists u)))
          # map (\<lambda>u. (JStr (name u), JArr (map JStr (top_artists u)))) us)
        = Some (u # us)"
    by (simp only: build_users.simps User_of_fields Cons.IH option.case)
  then show ?case by simp
qed

lemma Matcher_Some_users:
  fixes m :: matcher
  shows "Matcher (Some (users m)) = m"
  by (cases m) (simp add: Matcher_def)

lemma from_file_of_saved_text:
  fixes m :: matcher
  assumes "nodes fs path = Some (File content)"
    and "loads content = Inr (to_dict m)"
  shows "from_file loads fs path = Inr (Well_typed m)"
proof -
  have get: "dict_get (to_dict m) ''users'' (JArr []) =
      Inr (JArr (map (\<lambda>u. JObj [(''name'', JStr (name u)),
                      (''top_artists'', JArr (map JStr (top_artists u)))]) (users m)))"
    by (simp add: to_dict_def)
  show ?thesis
    by (simp add: from_file_def assms get user_fields_to_dict build_users_to_dict
        Matcher_Some_users)
qed

subsection \<open>One record for each identity\<close>

text \<open>
  C3, as the claim states it, fails: \<^verbatim>\<open>Matcher\<close> keeps the list it is given, and so
  does \<^verbatim>\<open>from_file\<close>. Built from the records ann and Ann, or loaded from a file that
  holds them, the collection has two records with the identity ann.
\<close>

theorem Matcher_keeps_duplicate_identities:
  "users (Matcher (Some [\<lparr>name = ''ann'', top_artists = []\<rparr>,
                         \<lparr>name = ''Ann'', top_artists = []\<rparr>]))
     = [\<lparr>name = ''ann'', top_artists = []\<rparr>, \<lparr>name = ''Ann'', top_artists = []\<rparr>] \<and>
   name_key \<lparr>name = ''ann'', top_artists = []\<rparr>
     = name_key \<lparr>name = ''Ann'', top_artists = []\<rparr> \<and>
   \<not> distinct (map name_key
        (users (Matcher (Some [\<lparr>name = ''ann'', top_artists = []\<rparr>,
                               \<lparr>name = ''Ann'', top_artists = []\<rparr>])))) \<and>
   from_file Inr
     \<lparr>nodes = [''users.json'' \<mapsto>
        File (JObj [(''users'',
          JArr [JObj [(''name'', JStr ''ann''), (''top_artists'', JArr [])],
                JObj [(''name'', JStr ''Ann''), (''top_artists'', JArr [])]])])],
      write_denied = (\<lambda>p. False)\<rparr>
     ''users.json''
     = Inr (Well_typed \<lparr>users = [\<lparr>name = ''ann'', top_artists = []\<rparr>,
                                   \<lparr>name = ''Ann'', top_artists = []\<rparr>]\<rparr>)"
  by code_simp

text \<open>
  C3, amended. The empty \<^verbatim>\<open>Matcher\<close> holds at most one record for each identity (the
  name stripped and case-folded), and \<^verbatim>\<open>add_user\<close> keeps it so: when the identities
  of the collection are distinct, they are distinct after any sequence of \<^verbatim>\<open>add_user\<close>
  calls. A \<^verbatim>\<open>Matcher\<close> built from a list holds that list, and a \<^verbatim>\<open>Matcher\<close> loaded from
  a file holds the records of the file, in both cases whatever their identities.
\<close>

theorem add_user_keeps_identities_distinct:
  fixes m m' :: matcher
  shows
  "distinct (map name_key (users (Matcher None))) \<and>
   (distinct (map name_key (users m)) \<longrightarrow>
      distinct (map name_key (users (foldl (\<lambda>m r. add_user r m) m rs)))) \<and>
   users (Matcher (Some l)) = l \<and>
   (nodes fs path = Some (File content) \<and> loads content = Inr (to_dict m') \<longrightarrow>
      from_file loads fs path = Inr (Well_typed m'))"
  by (simp add: Matcher_def foldl_add_user_distinct from_file_of_saved_text)

theorem add_user_keeps_identities_distinct_witness:
  "distinct (map name_key (users (Matcher None))) \<and>
   users (foldl (\<lambda>m r. add_user r m) (Matcher None)
            [\<lparr>name = ''ann'', top_artists = [''IU'']\<rparr>,
             \<lparr>name = ''Bob'', top_artists = []\<rparr>,
             \<lparr>name = [CHR 0xC9, CHR ''l'', CHR ''a''], top_artists = []\<rparr>,
             \<lparr>name = '' ANN '', top_artists = [''BTS'']\<rparr>,
             \<lparr>name = [CHR 0xE9, CHR ''L'', CHR ''A''], top_artists = [''KK'']\<rparr>])
     = [\<lparr>name = '' ANN '', top_artists = [''BTS'']\<rparr>,
        \<lparr>name = ''Bob'', top_artists = []\<rparr>,
        \<lparr>name = [CHR 0xE9, CHR ''L'', CHR ''A''], top_artists = [''KK'']\<rparr>] \<and>
   distinct (map name_key
     (users (foldl (\<lambda>m r. add_user r m) (Matcher None)
            [\<lparr>name = ''ann'', top_artists = [''IU'']\<rparr>,
             \<lparr>name = ''Bob'', top_artists = []\<rparr>,
             \<lparr>name = [CHR 0xC9, CHR ''l'', CHR ''a''], top_artists = []\<rparr>,
             \<lparr>name = '' ANN '', top_artists = [''BTS'']\<rparr>,
             \<lparr>name = [CHR 0xE9, CHR ''L'', CHR ''A''], top_artists = [''KK'']\<rparr>]))) \<and>
   from_file Inr
     \<lparr>nodes = [''users.json'' \<mapsto>
        File (to_dict \<lparr>users = [\<lparr>name = ''ann'', top_artists = []\<rparr>,
                                 \<lparr>name = ''Ann'', top_artists = []\<rparr>]\<rparr>)],
      write_denied = (\<lambda>p. False)\<rparr>
     ''users.json''
     = Inr (Well_typed \<lparr>users = [\<lparr>name = ''ann'', top_artists = []\<rparr>,
                                   \<lparr>name = ''Ann'', top_artists = []\<rparr>]\<rparr>)"
proof -
  let ?rs = "[\<lparr>name = ''ann'', top_artists = [''IU'']\<rparr>,
             \<lparr>name = ''Bob'', top_artists = []\<rparr>,
             \<lparr>name = [CHR 0xC9, CHR ''l'', CHR ''a''], top_artists = []\<rparr>,
             \<lparr>name = '' ANN '', top_artists = [''BTS'']\<rparr>,
             \<lparr>name = [CHR 0xE9, CHR ''L'', CHR ''A''], top_artists = [''KK'']\<rparr>]"
  let ?m' = "\<lparr>users = [\<lparr>name = ''ann'', top_artists = []\<rparr>,
                        \<lparr>name = ''Ann'', top_artists = []\<rparr>]\<rparr>"
  let ?fs = "\<lparr>nodes = [''users.json'' \<mapsto> File (to_dict ?m')],
              write_denied = (\<lambda>p. False)\<rparr>"
  have run: "users (foldl (\<lambda>m r. add_user r m) (Matcher None) ?rs)
     = [\<lparr>name = '' ANN '', top_artists = [''BTS'']\<rparr>,
        \<lparr>name = ''Bob'', top_artists = []\<rparr>,
        \<lparr>name = [CHR 0xE9, CHR ''L'', CHR ''A''], top_artists = [''KK'']\<rparr>]"
    by code_simp
  have start: "distinct (map name_key (users (Matcher None)))"
    by (simp add: Matcher_def)
  have present: "nodes ?fs ''users.json'' = Some (File (to_dict ?m')) \<and>
      Inr (to_dict ?m') = (Inr (to_dict ?m') :: error + json)"
    by simp
  note inst = add_user_keeps_identities_distinct
      [where m = "Matcher None" and rs = ?rs and m' = ?m' and fs = ?fs
         and path = "''users.json''" and content = "to_dict ?m'" and loads = Inr]
  from inst start
  have d: "distinct (map name_key (users (foldl (\<lambda>m r. add_user r m) (Matcher None) ?rs)))"
    by blast
  from inst present
  have l: "from_file Inr ?fs ''users.json'' = Inr (Well_typed ?m')"
    by blast
  from start run d l show ?thesis
    by blast
qed

subsection \<open>Insert or replace\<close>

text \<open>
  C4, as the claim states it, fails twice. The names \<open>a b\<close> and \<open>a  b\<close> differ only in
  white space, inside the name, and \<^verbatim>\<open>add_user\<close> appends: the collection grows. And
  when the store holds ann at index 0 and Ann at index 1, adding ANN, which differs
  from Ann only in letter case, replaces index 0 and leaves Ann at index 1.
\<close>

theorem add_user_inner_space_and_duplicates:
  "users (add_user \<lparr>name = ''a  b'', top_artists = []\<rparr>
            \<lparr>users = [\<lparr>name = ''a b'', top_artists = []\<rparr>]\<rparr>)
     = [\<lparr>name = ''a b'', top_artists = []\<rparr>, \<lparr>name = ''a  b'', top_artists = []\<rparr>] \<and>
   users (add_user \<lparr>name = ''ANN'', top_artists = [''IU'']\<rparr>
            \<lparr>users = [\<lparr>name = ''ann'', top_artists = []\<rparr>,
                       \<lparr>name = ''Ann'', top_artists = []\<rparr>]\<rparr>)
     = [\<lparr>name = ''ANN'', top_artists = [''IU'']\<rparr>, \<lparr>name = ''Ann'', top_artists = []\<rparr>]"
  by code_simp

text \<open>
  C4, amended. When some stored record has the name of the new record up to letter
  case and white space at the two ends of the name, \<^verbatim>\<open>add_user\<close> replaces the first
  such record, at its index, and the collection keeps its size and every other record.
  When there is none, the new record is appended at the end.
\<close>

theorem add_user_upsert:
  "((\<exists>u \<in> set (users m). name_key u = name_key r) \<longrightarrow>
      (\<exists>i < length (users m).
         name_key (users m ! i) = name_key r \<and>
         (\<forall>k < i. name_key (users m ! k) \<noteq> name_key r) \<and>
         users (add_user r m) = (users m)[i := r] \<and>
         length (users (add_user r m)) = length (users m))) \<and>
   ((\<forall>u \<in> set (users m). name_key u \<noteq> name_key r) \<longrightarrow>
      users (add_user r m) = users m @ [r])"
proof (cases "add_user_loop r 0 (users m)")
  case None
  then have none: "\<forall>u \<in> set (users m). name_key u \<noteq> name_key r"
    by (simp add: add_user_loop_None)
  from none add_user_appends [OF None] show ?thesis
    by blast
next
  case (Some i)
  from add_user_loop_0 [OF Some]
  have len: "i < length (users m)"
    and hit: "name_key (users m ! i) = name_key r"
    and miss: "\<forall>k < i. name_key (users m ! k) \<noteq> name_key r"
    by simp_all
  have upd: "users (add_user r m) = (users m)[i := r]"
    by (rule add_user_replaces [OF Some])
  have some: "\<exists>u \<in> set (users m). name_key u = name_key r"
    using len hit nth_mem by blast
  have "\<exists>i < length (users m).
         name_key (users m ! i) = name_key r \<and>
         (\<forall>k < i. name_key (users m ! k) \<noteq> name_key r) \<and>
         users (add_user r m) = (users m)[i := r] \<and>
         length (users (add_user r m)) = length (users m)"
    using len hit miss upd by (intro exI [of _ i]) simp
  with some show ?thesis by blast
qed

theorem add_user_upsert_witness:
  "name_key \<lparr>name = ''bob'', top_artists = []\<rparr>
     = name_key \<lparr>name = '' BOB '', top_artists = [''IU'']\<rparr> \<and>
   users (add_user \<lparr>name = '' BOB '', top_artists = [''IU'']\<rparr>
            \<lparr>users = [\<lparr>name = ''Amy'', top_artists = []\<rparr>,
                       \<lparr>name = ''bob'', top_artists = []\<rparr>,
                       \<lparr>name = ''Cy'', top_artists = []\<rparr>]\<rparr>)
     = [\<lparr>name = ''Amy'', top_artists = []\<rparr>,
        \<lparr>name = '' BOB '', top_artists = [''IU'']\<rparr>,
        \<lparr>name = ''Cy'', top_artists = []\<rparr>] \<and>
   users (add_user \<lparr>name = [CHR 0xC9], top_artists = [''IU'']\<rparr>
            \<lparr>users = [\<lparr>name = [CHR 0xE9], top_artists = []\<rparr>]\<rparr>)
     = [\<lparr>name = [CHR 0xC9], top_artists = [''IU'']\<rparr>] \<and>
   users (add_user \<lparr>name = ''Dee'', top_artists = []\<rparr>
            \<lparr>users = [\<lparr>name = ''Amy'', top_artists = []\<rparr>,
                       \<lparr>name = ''bob'', top_artists = []\<rparr>,
                       \<lparr>name = ''Cy'', top_artists = []\<rparr>]\<rparr>)
     = [\<lparr>name = ''Amy'', top_artists = []\<rparr>,
        \<lparr>name = ''bob'', top_artists = []\<rparr>,
        \<lparr>name = ''Cy'', top_artists = []\<rparr>,
        \<lparr>name = ''Dee'', top_artists = []\<rparr>]"
proof -
  let ?m = "\<lparr>users = [\<lparr>name = ''Amy'', top_artists = []\<rparr>,
                       \<lparr>name = ''bob'', top_artists = []\<rparr>,
                       \<lparr>name = ''Cy'', top_artists = []\<rparr>]\<rparr>"
  let ?b = "\<lparr>name = '' BOB '', top_artists = [''IU'']\<rparr>"
  let ?d = "\<lparr>name = ''Dee'', top_artists = []\<rparr>"
  let ?n = "\<lparr>users = [\<lparr>name = [CHR 0xE9], top_artists = []\<rparr>]\<rparr>"
  let ?e = "\<lparr>name = [CHR 0xC9], top_artists = [''IU'']\<rparr>"
  have some: "\<exists>u \<in> set (users ?m). name_key u = name_key ?b"
    by code_simp
  have none: "\<forall>u \<in> set (users ?m). name_key u \<noteq> name_key ?d"
    by code_simp
  have some': "\<exists>u \<in> set (users ?n). name_key u = name_key ?e"
    by code_simp
  have k0: "name_key (users ?m ! 0) \<noteq> name_key ?b"
    and k2: "name_key (users ?m ! 2) \<noteq> name_key ?b"
    by code_simp+
  from add_user_upsert [of ?m ?b] some
  obtain i where i: "i < length (users ?m)" "name_key (users ?m ! i) = name_key ?b"
    "users (add_user ?b ?m) = (users ?m)[i := ?b]"
    by blast
  have "length (users ?m) = 3"
    by simp
  with i(1) have "i = 0 \<or> i = 1 \<or> i = 2"
    by arith
  with k0 k2 i(2) have "i = 1"
    by blast
  with i(3) have repl: "users (add_user ?b ?m) =
      [\<lparr>name = ''Amy'', top_artists = []\<rparr>, ?b, \<lparr>name = ''Cy'', top_artists = []\<rparr>]"
    by simp
  from add_user_upsert [of ?n ?e] some'
  obtain k where k: "k < length (users ?n)" "users (add_user ?e ?n) = (users ?n)[k := ?e]"
    by blast
  from k(1) have "k = 0" by simp
  with k(2) have repl': "users (add_user ?e ?n) = [?e]"
    by simp
  from add_user_upsert [of ?m ?d] none
  have app: "users (add_user ?d ?m) = users ?m @ [?d]"
    by blast
  have key: "name_key \<lparr>name = ''bob'', top_artists = []\<rparr> = name_key ?b"
    by code_simp
  from key repl repl' app show ?thesis by simp
qed

subsection \<open>Loading without a file\<close>

lemma sample_users_raises:
  "sample_users = Inl TypeError"
  by (simp add: sample_users_def unary_plus_tuple_def)

text \<open>
  C1. No file is named \<^verbatim>\<open>users.json\<close>, so \<^verbatim>\<open>from_file\<close> calls \<^verbatim>\<open>sample_users\<close>. The
  sixth element of its list display is the unary \<^verbatim>\<open>+\<close> of a tuple, which raises
  \<^verbatim>\<open>TypeError\<close>: the call returns no \<^verbatim>\<open>Matcher\<close>, whatever the parser is.
\<close>

theorem from_file_missing_path_raises:
  "from_file loads \<lparr>nodes = Map.empty, write_denied = (\<lambda>p. False)\<rparr> ''users.json''
     = Inl TypeError"
  by (simp add: from_file_def sample_users_raises)

subsection \<open>Saving and loading\<close>

text \<open>
  C8. When the path is not a directory and may be written, and the text that the
  printer writes for the store parses back to the value that was printed, \<^verbatim>\<open>save\<close>
  succeeds and \<^verbatim>\<open>from_file\<close> on the same path then returns the store that was saved:
  the same records in the same order, each with its name and its artist list as they
  were, blank entries included. Whenever \<^verbatim>\<open>save\<close> succeeds, \<^verbatim>\<open>from_file\<close> on the
  file system it leaves returns that store.
\<close>

theorem save_from_file_roundtrip:
  fixes m :: matcher
  assumes "loads (dumps (to_dict m)) = Inr (to_dict m)"
  shows
  "(nodes fs path \<noteq> Some Directory \<and> \<not> write_denied fs path \<longrightarrow>
      save dumps m path fs
        = Inr (fs\<lparr>nodes := (nodes fs)(path \<mapsto> File (dumps (to_dict m)))\<rparr>) \<and>
      from_file loads (fs\<lparr>nodes := (nodes fs)(path \<mapsto> File (dumps (to_dict m)))\<rparr>) path
        = Inr (Well_typed m)) \<and>
   (save dumps m path fs = Inr fs' \<longrightarrow> from_file loads fs' path = Inr (Well_typed m))"
proof -
  let ?fs1 = "fs\<lparr>nodes := (nodes fs)(path \<mapsto> File (dumps (to_dict m)))\<rparr>"
  have written: "nodes ?fs1 path = Some (File (dumps (to_dict m)))"
    by simp
  have reload: "from_file loads ?fs1 path = Inr (Well_typed m)"
    using written assms by (rule from_file_of_saved_text)
  have ok: "save dumps m path fs = Inr ?fs1"
    if "nodes fs path \<noteq> Some Directory" and "\<not> write_denied fs path"
    using that by (simp add: save_def)
  have only: "fs' = ?fs1" if "save dumps m path fs = Inr fs'"
    using that by (simp add: save_def split: if_splits)
  from reload ok only show ?thesis
    by blast
qed

theorem save_from_file_roundtrip_witness:
  "save (\<lambda>j. j)
        \<lparr>users = [\<lparr>name = ''Amy'', top_artists = [''IU'', ''  '', ''IU'']\<rparr>,
                   \<lparr>name = '' amy'', top_artists = []\<rparr>]\<rparr>
        ''users.json'' \<lparr>nodes = Map.empty, write_denied = (\<lambda>p. False)\<rparr>
     = Inr \<lparr>nodes = [''users.json'' \<mapsto>
              File (JObj [(''users'',
                JArr [JObj [(''name'', JStr ''Amy''),
                            (''top_artists'', JArr [JStr ''IU'', JStr ''  '', JStr ''IU''])],
                      JObj [(''name'', JStr '' amy''), (''top_artists'', JArr [])]])])],
            write_denied = (\<lambda>p. False)\<rparr> \<and>
   from_file Inr
     \<lparr>nodes = [''users.json'' \<mapsto>
              File (JObj [(''users'',
                JArr [JObj [(''name'', JStr ''Amy''),
                            (''top_artists'', JArr [JStr ''IU'', JStr ''  '', JStr ''IU''])],
                      JObj [(''name'', JStr '' amy''), (''top_artists'', JArr [])]])])],
      write_denied = (\<lambda>p. False)\<rparr>
     ''users.json''
     = Inr (Well_typed
         \<lparr>users = [\<lparr>name = ''Amy'', top_artists = [''IU'', ''  '', ''IU'']\<rparr>,
                    \<lparr>name = '' amy'', top_artists = []\<rparr>]\<rparr>)"
proof -
  let ?m = "\<lparr>users = [\<lparr>name = ''Amy'', top_artists = [''IU'', ''  '', ''IU'']\<rparr>,
                       \<lparr>name = '' amy'', top_artists = []\<rparr>]\<rparr>"
  let ?fs = "\<lparr>nodes = (Map.empty :: string \<rightharpoonup> json node), write_denied = (\<lambda>p. False)\<rparr>"
  have parsed: "Inr ((\<lambda>j. j) (to_dict ?m)) = (Inr (to_dict ?m) :: error + json)"
    by simp
  have free: "nodes ?fs ''users.json'' \<noteq> Some Directory \<and> \<not> write_denied ?fs ''users.json''"
    by simp
  have printed: "to_dict ?m = JObj [(''users'',
                JArr [JObj [(''name'', JStr ''Amy''),
                            (''top_artists'', JArr [JStr ''IU'', JStr ''  '', JStr ''IU''])],
                      JObj [(''name'', JStr '' amy''), (''top_artists'', JArr [])]])]"
    by (simp add: to_dict_def)
  note inst = save_from_file_roundtrip
      [where loads = Inr and dumps = "\<lambda>j. j" and m = ?m and fs = ?fs
         and path = "''users.json''", OF parsed]
  from inst free
  have "save (\<lambda>j. j) ?m ''users.json'' ?fs
        = Inr (?fs\<lparr>nodes := (nodes ?fs)(''users.json'' \<mapsto> File ((\<lambda>j. j) (to_dict ?m)))\<rparr>) \<and>
      from_file Inr
        (?fs\<lparr>nodes := (nodes ?fs)(''users.json'' \<mapsto> File ((\<lambda>j. j) (to_dict ?m)))\<rparr>)
        ''users.json''
        = Inr (Well_typed ?m)"
    by blast
  then show ?thesis
    by (simp add: printed)
qed

subsection \<open>A file that is not JSON\<close>

text \<open>
  C10. When the path names a file and the parser raises on its text, \<^verbatim>\<open>from_file\<close>
  raises the same exception: it returns no \<^verbatim>\<open>Matcher\<close>, neither the seed data nor
  an empty collection.
\<close>

theorem from_file_invalid_json_raises:
  assumes "nodes fs path = Some (File body)"
    and "loads body = Inl e"
  shows "from_file loads fs path = Inl e"
  by (simp add: from_file_def assms)

theorem from_file_invalid_json_raises_witness:
  "from_file (\<lambda>t. if t = ''{}'' then Inr (JObj []) else Inl JSONDecodeError)
     \<lparr>nodes = [''users.json'' \<mapsto> File ''not json''], write_denied = (\<lambda>p. False)\<rparr>
     ''users.json''
     = Inl JSONDecodeError"
proof -
  let ?loads = "\<lambda>t. if t = ''{}'' then Inr (JObj []) else Inl JSONDecodeError"
  let ?fs = "\<lparr>nodes = [''users.json'' \<mapsto> File ''not json''], write_denied = (\<lambda>p. False)\<rparr>"
  have present: "nodes ?fs ''users.json'' = Some (File ''not json'')"
    by simp
  have bad: "?loads ''not json'' = Inl JSONDecodeError"
    by simp
  show ?thesis
    using from_file_invalid_json_raises
      [where loads = ?loads and fs = ?fs and body = "''not json''" and e = JSONDecodeError,
       OF present bad]
    by simp
qed

end
